theory Spec2Isabelle
  imports Complex_Main "HOL-Library.Product_Lexorder"
begin

section \<open>Data model of the solution search (types/solutionSearch.ts)\<close>

text \<open>
  JavaScript numbers are modelled exactly: counters and sizes as \<open>nat\<close> or \<open>int\<close>,
  scores and percentages as \<open>real\<close>. Strings are \<open>string\<close>; an optional field
  \<open>f?: T\<close> is a \<open>T option\<close>, with \<open>None\<close> for \<open>undefined\<close>.
\<close>

datatype SearchSource = Database | Rag | Web

datatype SearchStatus = Searching | Completed | Failed

record Metadata =
  incident_id :: "nat option"
  created_at :: "string option"
  md_department :: "string option"
  md_severity :: "string option"

record SearchResult =
  source :: SearchSource
  title :: string
  description :: string
  relevance_score :: real
  solution :: "string option"
  url :: "string option"
  metadata :: "Metadata option"

record Progress =
  database_completed :: bool
  rag_completed :: bool
  web_completed :: bool
  total_sources :: nat
  completed_sources :: nat

record SolutionSearchResponse =
  search_id :: nat
  status :: SearchStatus
  results :: "SearchResult list"
  summary :: string
  confidence_score :: real
  search_progress :: "Progress option"

record SearchStatusResponse =
  st_search_id :: nat
  st_status :: SearchStatus
  progress :: Progress
  estimated_completion_time :: "real option"

text \<open>The string literal each \<open>SearchSource\<close> stands for.\<close>

fun sourceId :: "SearchSource \<Rightarrow> string" where
  "sourceId Database = ''database''"
| "sourceId Rag = ''rag''"
| "sourceId Web = ''web''"

subsection \<open>JavaScript helpers\<close>

text \<open>Truthiness of an optional string (\<open>undefined\<close> and \<open>""\<close> are falsy) and of an
  optional number (\<open>undefined\<close> and \<open>0\<close> are falsy).\<close>

fun truthyStr :: "string option \<Rightarrow> bool" where
  "truthyStr None = False"
| "truthyStr (Some s) = (s \<noteq> [])"

fun truthyNum :: "nat option \<Rightarrow> bool" where
  "truthyNum None = False"
| "truthyNum (Some n) = (n \<noteq> 0)"

text \<open>\<open>String.prototype.toUpperCase\<close> on ASCII text.\<close>

definition upperChar :: "char \<Rightarrow> char" where
  "upperChar c =
     (let n = (of_char c :: nat)
      in if 97 \<le> n \<and> n \<le> 122 then char_of (n - 32) else c)"

definition toUpperCase :: "string \<Rightarrow> string" where
  "toUpperCase s = map upperChar s"

text \<open>Decimal rendering of a non-negative integer, as template literals do.\<close>

definition digitChar :: "nat \<Rightarrow> char" where
  "digitChar d = ''0123456789'' ! d"

fun showNat :: "nat \<Rightarrow> string" where
  "showNat n = (if n < 10 then [digitChar n] else showNat (n div 10) @ [digitChar (n mod 10)])"

declare showNat.simps [simp del]

text \<open>\<open>Array.prototype.join\<close>.\<close>

fun join :: "string \<Rightarrow> string list \<Rightarrow> string" where
  "join sep [] = []"
| "join sep [x] = x"
| "join sep (x # y # ys) = x @ sep @ join sep (y # ys)"

section \<open>Rendering one search result (components/SearchResults.tsx)\<close>

text \<open>
  The card that \<open>renderResult\<close> returns, as the sequence of the parts it displays, in
  document order. The date of the metadata line is kept as the raw \<open>created_at\<close> text:
  its locale formatting is the browser's.
\<close>

datatype Element =
    CardTitle string
  | SourceBadge string
  | ConfidenceBadge string
  | ViewDetailsButton nat
  | ViewButton string
  | DescriptionText string
  | SuggestedSolution string
  | MetaIncident nat
  | MetaDepartment string
  | MetaSeverity string
  | MetaDate string
  | TextNode string

record ResultCard =
  card_key :: string
  card_body :: "Element list"

definition getConfidenceLabel :: "real \<Rightarrow> string" where
  "getConfidenceLabel score =
     (if score \<ge> 0.8 then ''High''
      else if score \<ge> 0.6 then ''Medium''
      else if score \<ge> 0.4 then ''Low''
      else ''Very Low'')"

text \<open>\<open>value && element\<close> inside JSX: the element is there when the value is truthy.
  When it is falsy the expression is the value itself: \<open>undefined\<close> and the empty string
  render nothing, and the number 0 renders as the text \<open>0\<close>.\<close>

fun whenStr :: "string option \<Rightarrow> (string \<Rightarrow> Element) \<Rightarrow> Element list" where
  "whenStr None mk = []"
| "whenStr (Some s) mk = (if s \<noteq> [] then [mk s] else [])"

fun whenNum :: "nat option \<Rightarrow> (nat \<Rightarrow> Element) \<Rightarrow> Element list" where
  "whenNum None mk = []"
| "whenNum (Some n) mk = (if n \<noteq> 0 then [mk n] else [TextNode ''0''])"

definition renderMetadata :: "Metadata option \<Rightarrow> Element list" where
  "renderMetadata m =
     (case m of
        None \<Rightarrow> []
      | Some md \<Rightarrow>
          whenNum (incident_id md) MetaIncident
          @ whenStr (md_department md) MetaDepartment
          @ whenStr (md_severity md) MetaSeverity
          @ whenStr (created_at md) MetaDate)"

definition renderResult :: "SearchResult \<Rightarrow> nat \<Rightarrow> ResultCard" where
  "renderResult result index =
     \<lparr> card_key = sourceId (source result) @ ''-'' @ showNat index,
       card_body =
         [CardTitle (title result),
          SourceBadge (toUpperCase (sourceId (source result))),
          ConfidenceBadge (getConfidenceLabel (relevance_score result) @ '' Confidence'')]
         @ (if source result = Database
            then (case metadata result of
                    None \<Rightarrow> []
                  | Some md \<Rightarrow> whenNum (incident_id md) ViewDetailsButton)
            else [])
         @ whenStr (url result) ViewButton
         @ [DescriptionText (description result)]
         @ (case solution result of
              None \<Rightarrow> []
            | Some s \<Rightarrow>
                if s \<noteq> [] \<and> source result \<noteq> Web then [SuggestedSolution s] else [])
         @ renderMetadata (metadata result) \<rparr>"

text \<open>The solution text sections a card displays.\<close>

fun solutionText :: "Element \<Rightarrow> string option" where
  "solutionText (SuggestedSolution s) = Some s"
| "solutionText _ = None"

definition shownSolutions :: "ResultCard \<Rightarrow> string list" where
  "shownSolutions c = List.map_filter solutionText (card_body c)"

section \<open>Progress view of a running search (components/SearchProgress.tsx)\<close>

record SearchSourceRow =
  row_id :: string
  row_name :: string
  row_description :: string
  completed :: bool
  estimatedTime :: real

definition searchSources :: "SearchSourceRow list" where
  "searchSources =
     [\<lparr> row_id = ''database'', row_name = ''Internal Database'',
        row_description = ''Searching our incident database for similar problems'',
        completed = False, estimatedTime = 3 \<rparr>,
      \<lparr> row_id = ''rag'', row_name = ''Knowledge Base'',
        row_description = ''Analyzing Excel data and historical cases'',
        completed = False, estimatedTime = 4 \<rparr>,
      \<lparr> row_id = ''web'', row_name = ''Web Search'',
        row_description = ''Searching the web for external solutions'',
        completed = False, estimatedTime = 6 \<rparr>]"

text \<open>\<open>status.progress[key]\<close> for the keys \<open>`${source.id}_completed`\<close>; any other key
  built that way is not a field of the object, which reads as \<open>undefined\<close>.\<close>

definition progressFlag :: "Progress \<Rightarrow> string \<Rightarrow> bool" where
  "progressFlag p key =
     (if key = ''database_completed'' then database_completed p
      else if key = ''rag_completed'' then rag_completed p
      else if key = ''web_completed'' then web_completed p
      else False)"

text \<open>\<open>status\<close> is the component's state: \<open>None\<close> until the first poll has answered.\<close>

definition updatedSources :: "SearchStatusResponse option \<Rightarrow> SearchSourceRow list" where
  "updatedSources st =
     map (\<lambda>src. src\<lparr> completed :=
            (case st of
               None \<Rightarrow> False
             | Some s \<Rightarrow> progressFlag (progress s) (row_id src @ ''_completed'')) \<rparr>)
         searchSources"

text \<open>The \<open>for\<close> loop of \<open>getCurrentSourceIndex\<close>, from index \<open>i\<close> on; \<open>-1\<close> when
  every source is completed.\<close>

fun currentIndexFrom :: "nat \<Rightarrow> SearchSourceRow list \<Rightarrow> int" where
  "currentIndexFrom i [] = -1"
| "currentIndexFrom i (src # rest) =
     (if \<not> completed src then int i else currentIndexFrom (Suc i) rest)"

definition getCurrentSourceIndex :: "SearchSourceRow list \<Rightarrow> int" where
  "getCurrentSourceIndex rows = currentIndexFrom 0 rows"

definition completedSources :: "SearchSourceRow list \<Rightarrow> nat" where
  "completedSources rows = length (filter completed rows)"

definition currentSourceProgress :: "real \<Rightarrow> SearchSourceRow \<Rightarrow> real" where
  "currentSourceProgress elapsedTime currentSource =
     min ((elapsedTime / estimatedTime currentSource) * 100) 100"

definition progressPercentage :: "SearchStatusResponse option \<Rightarrow> real \<Rightarrow> real" where
  "progressPercentage st elapsedTime =
     (let rows = updatedSources st;
          totalSources = length rows;
          currentSourceIndex = getCurrentSourceIndex rows;
          p = (real (completedSources rows) / real totalSources) * 100
      in if currentSourceIndex \<ge> 0 \<and> currentSourceIndex < int (length rows)
         then p + currentSourceProgress elapsedTime (rows ! nat currentSourceIndex)
                    / real totalSources
         else p)"

definition estimatedTotalTime :: "SearchStatusResponse option \<Rightarrow> real" where
  "estimatedTotalTime st =
     foldl (\<lambda>total src. if completed src then total else total + estimatedTime src)
           0 (updatedSources st)"

text \<open>A status snapshot with the given three completion flags.\<close>

definition snapshot :: "SearchStatus \<Rightarrow> bool \<Rightarrow> bool \<Rightarrow> bool \<Rightarrow> SearchStatusResponse" where
  "snapshot s d r w =
     \<lparr> st_search_id = 1, st_status = s,
       progress = \<lparr> database_completed = d, rag_completed = r, web_completed = w,
                    total_sources = 3,
                    completed_sources = (if d then 1 else 0) + (if r then 1 else 0)
                                        + (if w then 1 else 0) \<rparr>,
       estimated_completion_time = None \<rparr>"

section \<open>Client-side file validation (services/fileService.ts)\<close>

record File =
  file_name :: string
  file_size :: nat
  file_type :: string

record FileValidation =
  fv_valid :: bool
  fv_error :: "string option"

record FilesValidation =
  valid :: bool
  errors :: "string list"

text \<open>\<open>(maxSize / 1024 / 1024).toFixed(0)\<close>: the quotient rounded to the nearest integer,
  a tie going up.\<close>

definition megabytesText :: "nat \<Rightarrow> string" where
  "megabytesText maxSize = showNat ((2 * maxSize + 1024 * 1024) div (2 * 1024 * 1024))"

definition validateFile :: "File \<Rightarrow> nat \<Rightarrow> string list \<Rightarrow> FileValidation" where
  "validateFile file maxSize allowedTypes =
     (if file_size file > maxSize then
        \<lparr> fv_valid = False,
          fv_error = Some (''File size exceeds maximum allowed size (''
                           @ megabytesText maxSize @ ''MB)'') \<rparr>
      else if file_type file \<notin> set allowedTypes then
        \<lparr> fv_valid = False,
          fv_error = Some (''File type not allowed. Allowed types: ''
                           @ join '', '' allowedTypes) \<rparr>
      else \<lparr> fv_valid = True, fv_error = None \<rparr>)"

text \<open>The callback that \<open>validateFiles\<close> runs on each file with \<open>forEach\<close>; \<open>acc\<close> is
  the \<open>errors\<close> array it pushes to.\<close>

definition pushFileError :: "nat \<Rightarrow> string list \<Rightarrow> string list \<Rightarrow> File \<Rightarrow> string list" where
  "pushFileError maxSize allowedTypes acc file =
     (let validation = validateFile file maxSize allowedTypes
      in case fv_error validation of
           None \<Rightarrow> acc
         | Some e \<Rightarrow>
             if \<not> fv_valid validation \<and> e \<noteq> []
             then acc @ [file_name file @ '': '' @ e]
             else acc)"

definition validateFiles :: "File list \<Rightarrow> nat \<Rightarrow> nat \<Rightarrow> string list \<Rightarrow> FilesValidation" where
  "validateFiles files maxFiles maxSize allowedTypes =
     (if length files > maxFiles then
        \<lparr> valid = False, errors = [''Maximum '' @ showNat maxFiles @ '' files allowed''] \<rparr>
      else
        let errs = foldl (pushFileError maxSize allowedTypes) [] files
        in \<lparr> valid = (length errs = 0), errors = errs \<rparr>)"

text \<open>The default parameters of \<open>validateFile\<close> and \<open>validateFiles\<close>.\<close>

definition defaultMaxFiles :: nat where
  "defaultMaxFiles = 5"

definition defaultMaxSize :: nat where
  "defaultMaxSize = 10 * 1024 * 1024"

definition defaultAllowedTypes :: "string list" where
  "defaultAllowedTypes = [''image/jpeg'', ''image/png'', ''application/pdf'']"

definition validateFilesDefault :: "File list \<Rightarrow> FilesValidation" where
  "validateFilesDefault files =
     validateFiles files defaultMaxFiles defaultMaxSize defaultAllowedTypes"

section \<open>The solution search form (components/SolutionSearchForm.tsx)\<close>

record SolutionSearchFormData =
  problem_description :: string
  department :: string
  severity :: string
  reporter_name :: string

text \<open>
  The zod schema, as the list of issues it reports for a form value: each check of each
  field adds its issue when it fails, and the value parses when the list is empty.
  \<open>length\<close> is the string's \<open>length\<close> property.
\<close>

record ZodIssue =
  issue_path :: string
  issue_message :: string

definition zMin :: "nat \<Rightarrow> string \<Rightarrow> string \<Rightarrow> string \<Rightarrow> ZodIssue list" where
  "zMin n msg path v =
     (if length v < n then [\<lparr> issue_path = path, issue_message = msg \<rparr>] else [])"

definition zMax :: "nat \<Rightarrow> string \<Rightarrow> string \<Rightarrow> string \<Rightarrow> ZodIssue list" where
  "zMax n msg path v =
     (if length v > n then [\<lparr> issue_path = path, issue_message = msg \<rparr>] else [])"

definition zEnum :: "string list \<Rightarrow> string \<Rightarrow> string \<Rightarrow> ZodIssue list" where
  "zEnum options path v =
     (if v \<in> set options then []
      else [\<lparr> issue_path = path,
              issue_message = ''Invalid enum value. Expected ''
                @ join '' | '' (map (\<lambda>opt. [CHR 0x27] @ opt @ [CHR 0x27]) options)
                @ '', received '' @ [CHR 0x27] @ v @ [CHR 0x27] \<rparr>])"

definition solutionSearchSchema :: "SolutionSearchFormData \<Rightarrow> ZodIssue list" where
  "solutionSearchSchema d =
     zMin 10 ''Problem description must be at least 10 characters''
         ''problem_description'' (problem_description d)
     @ zMax 1000 ''Problem description must be less than 1000 characters''
         ''problem_description'' (problem_description d)
     @ zMin 1 ''Please select a department'' ''department'' (department d)
     @ zEnum [''low'', ''medium'', ''high'', ''critical''] ''severity'' (severity d)
     @ zMin 2 ''Reporter name must be at least 2 characters''
         ''reporter_name'' (reporter_name d)
     @ zMax 100 ''Reporter name must be less than 100 characters''
         ''reporter_name'' (reporter_name d)"

text \<open>
  \<open>handleSubmit(onValid)\<close> of the form library with the zod resolver: the submit event
  validates the form value, and calls \<open>onValid\<close> with it only when there is no issue;
  otherwise the issues become the form's \<open>errors\<close>. The state \<open>'s\<close> is whatever
  \<open>onValid\<close> acts on.
\<close>

definition handleSubmit ::
  "(SolutionSearchFormData \<Rightarrow> 's \<Rightarrow> 's) \<Rightarrow> SolutionSearchFormData \<Rightarrow> 's \<Rightarrow> ZodIssue list \<times> 's" where
  "handleSubmit onValid d s =
     (let issues = solutionSearchSchema d
      in if issues = [] then ([], onValid d s) else (issues, s))"

definition handleFormSubmit ::
  "(SolutionSearchFormData \<Rightarrow> 's \<Rightarrow> 's) \<Rightarrow> SolutionSearchFormData \<Rightarrow> 's \<Rightarrow> 's" where
  "handleFormSubmit onSubmit d s = onSubmit d s"

text \<open>Submitting the form: \<open>onSubmit={handleSubmit(handleFormSubmit)}\<close>.\<close>

definition submitForm ::
  "(SolutionSearchFormData \<Rightarrow> 's \<Rightarrow> 's) \<Rightarrow> SolutionSearchFormData \<Rightarrow> 's \<Rightarrow> ZodIssue list \<times> 's" where
  "submitForm onSubmit d s = handleSubmit (handleFormSubmit onSubmit) d s"

section \<open>The search service (services/solutionSearchService.ts)\<close>

text \<open>What the client does that the outside can see, in order.\<close>

datatype Event =
    PostSubmit SolutionSearchFormData
  | GetStatus nat
  | GetResults nat
  | OnProgress SearchStatusResponse
  | Wait nat

text \<open>\<open>submitSolutionSearch\<close>, the first action of the page's submit handler: the request
  is appended to the log of requests.\<close>

definition submitSolutionSearch :: "SolutionSearchFormData \<Rightarrow> Event list \<Rightarrow> Event list" where
  "submitSolutionSearch d sent = sent @ [PostSubmit d]"

text \<open>
  The replies of the two endpoints. The API client rejects with an \<open>Error\<close> carrying a
  message; the server is free to answer differently each time, so a reply depends on the
  search id and on the number of the attempt that asks.
\<close>

datatype StatusReply = StatusError string | StatusOk SearchStatusResponse

datatype ResultsReply = ResultsError string | ResultsOk SolutionSearchResponse

record Server =
  getSearchStatus :: "nat \<Rightarrow> nat \<Rightarrow> StatusReply"
  getSearchResults :: "nat \<Rightarrow> nat \<Rightarrow> ResultsReply"

text \<open>How a promise settles.\<close>

datatype Outcome = Returned SolutionSearchResponse | Thrown string

text \<open>How the \<open>try\<close> block of one iteration ends: with \<open>return\<close>, with an exception, or by
  reaching its wait. \<open>onProgress\<close> tells whether the callback was passed; the callback
  itself is taken not to throw.\<close>

datatype TryResult = TryReturn SolutionSearchResponse | TryThrow string | TryDone

definition tryBlock :: "Server \<Rightarrow> nat \<Rightarrow> bool \<Rightarrow> nat \<Rightarrow> TryResult \<times> Event list" where
  "tryBlock srv searchId onProgress attempts =
     (case getSearchStatus srv searchId attempts of
        StatusError e \<Rightarrow> (TryThrow e, [GetStatus searchId])
      | StatusOk st \<Rightarrow>
          (let seen = [GetStatus searchId] @ (if onProgress then [OnProgress st] else [])
           in if st_status st = Completed then
                (case getSearchResults srv searchId attempts of
                   ResultsError e \<Rightarrow> (TryThrow e, seen @ [GetResults searchId])
                 | ResultsOk r \<Rightarrow> (TryReturn r, seen @ [GetResults searchId]))
              else if st_status st = Failed then (TryThrow ''Search failed'', seen)
              else (TryDone, seen)))"

text \<open>Prefix the events of an iteration and its wait to what the rest of the loop does.\<close>

definition andThen :: "Event list \<Rightarrow> Outcome \<times> Event list \<Rightarrow> Outcome \<times> Event list" where
  "andThen evs rest = (fst rest, evs @ snd rest)"

text \<open>The \<open>while\<close> loop of \<open>pollSearchStatus\<close>, from the current value of \<open>attempts\<close>,
  and the statement after it. \<open>onProgress\<close> tells whether the callback was passed.\<close>

function pollLoop :: "Server \<Rightarrow> nat \<Rightarrow> bool \<Rightarrow> nat \<Rightarrow> nat \<Rightarrow> nat \<Rightarrow> Outcome \<times> Event list" where
  "pollLoop srv searchId onProgress maxAttempts intervalMs attempts =
     (if attempts < maxAttempts then
        (case tryBlock srv searchId onProgress attempts of
           (TryReturn r, evs) \<Rightarrow> (Returned r, evs)
         | (TryDone, evs) \<Rightarrow>
             andThen (evs @ [Wait intervalMs])
               (pollLoop srv searchId onProgress maxAttempts intervalMs (attempts + 1))
         | (TryThrow e, evs) \<Rightarrow>
             if attempts = maxAttempts - 1 then (Thrown e, evs)
             else andThen (evs @ [Wait intervalMs])
                    (pollLoop srv searchId onProgress maxAttempts intervalMs (attempts + 1)))
      else (Thrown ''Search timeout - please try again.'', []))"
  by pat_completeness auto
termination
  by (relation "measure (\<lambda>(srv, searchId, onProgress, maxAttempts, intervalMs, attempts).
                   maxAttempts - attempts)") auto

declare pollLoop.simps [simp del]

definition pollSearchStatus ::
  "Server \<Rightarrow> nat \<Rightarrow> bool \<Rightarrow> nat \<Rightarrow> nat \<Rightarrow> Outcome \<times> Event list" where
  "pollSearchStatus srv searchId onProgress maxAttempts intervalMs =
     pollLoop srv searchId onProgress maxAttempts intervalMs 0"

text \<open>The call with the default parameters \<open>maxAttempts = 30\<close>, \<open>intervalMs = 2000\<close>.\<close>

definition pollSearchStatusDefault :: "Server \<Rightarrow> nat \<Rightarrow> bool \<Rightarrow> Outcome \<times> Event list" where
  "pollSearchStatusDefault srv searchId onProgress =
     pollSearchStatus srv searchId onProgress 30 2000"

text \<open>The number of status queries in a trace, and the check that every wait of the
  trace lasts \<open>ms\<close> and that a wait separates any two status queries (\<open>waited\<close>: a wait
  has passed since the last status query, or there was none yet).\<close>

definition statusQueries :: "Event list \<Rightarrow> nat" where
  "statusQueries evs = length (filter (\<lambda>e. case e of GetStatus _ \<Rightarrow> True | _ \<Rightarrow> False) evs)"


section \<open>Polling inside the progress view (components/SearchProgress.tsx)\<close>

datatype Callback = OnComplete | OnError string

record ProgressView =
  view_status :: "SearchStatusResponse option"
  isPolling :: bool
  fired :: "Callback list"

text \<open>One run of \<open>pollStatus\<close> on the reply of the status endpoint; \<open>fired\<close> records the
  calls of the \<open>onComplete\<close> and \<open>onError\<close> props.\<close>

definition pollStatus :: "StatusReply \<Rightarrow> ProgressView \<Rightarrow> ProgressView" where
  "pollStatus reply v =
     (case reply of
        StatusOk statusResponse \<Rightarrow>
          (let v1 = v\<lparr> view_status := Some statusResponse \<rparr>
           in if st_status statusResponse = Completed then
                v1\<lparr> isPolling := False, fired := fired v1 @ [OnComplete] \<rparr>
              else if st_status statusResponse = Failed then
                v1\<lparr> isPolling := False, fired := fired v1 @ [OnError ''Search failed''] \<rparr>
              else v1)
      | StatusError msg \<Rightarrow> v\<lparr> fired := fired v @ [OnError msg] \<rparr>)"

section \<open>The search record and its orchestrator\<close>

text \<open>
  The server side of the search (record store, orchestrator, aggregator) is not among the
  sources; the client only declares the type \<open>SearchStatus\<close> of its status field. This
  section follows the design text. The three sources \<open>structured\<close>, \<open>knowledge\<close> and
  \<open>web\<close> are the client's \<open>Database\<close>, \<open>Rag\<close> and \<open>Web\<close>; a result is the client's
  \<open>SearchResult\<close>, with \<open>relevance_score\<close> its relevance score.
\<close>

text \<open>Modelled from the spec: the per-source state of a search record (the record store
  is missing), one of pending, done, errored.\<close>

datatype SourceState = Pending | Done | Errored

text \<open>Modelled from the spec: the aggregated response (the aggregator is missing): the
  merged results and the confidence score. The summary is text of an external generator and
  is left out.\<close>

record AggregatedResponse =
  agg_results :: "SearchResult list"
  confidenceScore :: real

text \<open>Modelled from the spec: the search record (the record store is missing): status,
  one state and one result sequence per source, and the aggregated response once
  finalized.\<close>

record SearchRecord =
  rec_status :: SearchStatus
  sourceState :: "SearchSource \<Rightarrow> SourceState"
  resultsBySource :: "SearchSource \<Rightarrow> SearchResult list"
  aggregated :: "AggregatedResponse option"

text \<open>Modelled from the spec: the three sources in their priority order structured,
  knowledge, web (the aggregator is missing).\<close>

definition allSources :: "SearchSource list" where
  "allSources = [Database, Rag, Web]"

text \<open>Modelled from the spec: the tie-break rank of a source, structured before knowledge
  before web (the aggregator is missing).\<close>

fun sourcePriority :: "SearchSource \<Rightarrow> nat" where
  "sourcePriority Database = 0"
| "sourcePriority Rag = 1"
| "sourcePriority Web = 2"

text \<open>Modelled from the spec: \<open>create\<close> of the record store (missing): status searching,
  every source pending, no results.\<close>

definition create :: SearchRecord where
  "create = \<lparr> rec_status = Searching, sourceState = (\<lambda>src. Pending),
              resultsBySource = (\<lambda>src. []), aggregated = None \<rparr>"

text \<open>Modelled from the spec: \<open>markSourceDone\<close> of the record store (missing); the state
  of a source is written exactly once, so a source that is no longer pending is left as it
  is.\<close>

definition markSourceDone :: "SearchSource \<Rightarrow> SearchResult list \<Rightarrow> SearchRecord \<Rightarrow> SearchRecord" where
  "markSourceDone src rs r =
     (if sourceState r src = Pending
      then r\<lparr> sourceState := (sourceState r)(src := Done),
              resultsBySource := (resultsBySource r)(src := rs) \<rparr>
      else r)"

text \<open>Modelled from the spec: \<open>markSourceErrored\<close> of the record store (missing); an
  errored source contributes no results.\<close>

definition markSourceErrored :: "SearchSource \<Rightarrow> SearchRecord \<Rightarrow> SearchRecord" where
  "markSourceErrored src r =
     (if sourceState r src = Pending
      then r\<lparr> sourceState := (sourceState r)(src := Errored) \<rparr>
      else r)"

text \<open>Modelled from the spec: all three source states are terminal, done or errored (the
  orchestrator's check is missing).\<close>

definition allTerminal :: "SearchRecord \<Rightarrow> bool" where
  "allTerminal r = list_all (\<lambda>src. sourceState r src \<noteq> Pending) allSources"

text \<open>Modelled from the spec: the number of sources that succeeded (the aggregator is
  missing).\<close>

definition successfulSources :: "SearchRecord \<Rightarrow> nat" where
  "successfulSources r = length (filter (\<lambda>src. sourceState r src = Done) allSources)"

text \<open>Modelled from the spec: the number of sources that errored (the aggregator is
  missing).\<close>

definition erroredSources :: "SearchRecord \<Rightarrow> nat" where
  "erroredSources r = length (filter (\<lambda>src. sourceState r src = Errored) allSources)"

text \<open>Modelled from the spec: the merge of the aggregator (missing): all result sequences
  concatenated, without deduplication, sorted by relevance score descending, ties broken by
  source priority, stable for equal keys.\<close>

definition mergedResults :: "SearchRecord \<Rightarrow> SearchResult list" where
  "mergedResults r =
     sort_key (\<lambda>x. (- relevance_score x, sourcePriority (source x)))
       (concat (map (resultsBySource r) allSources))"

text \<open>Modelled from the spec: the relevance score of the top-ranked merged result (the
  aggregator is missing). The spec names no top score for an empty merge; 0 stands for
  it.\<close>

definition topMergedRelevance :: "SearchRecord \<Rightarrow> real" where
  "topMergedRelevance r = (case mergedResults r of [] \<Rightarrow> 0 | best # _ \<Rightarrow> relevance_score best)"

text \<open>Modelled from the spec: \<open>aggregate\<close> of the aggregator (missing); the confidence
  score is \<open>topScore * (successfulSources / 3)\<close>.\<close>

definition aggregate :: "SearchRecord \<Rightarrow> AggregatedResponse" where
  "aggregate r =
     \<lparr> agg_results = mergedResults r,
       confidenceScore = topMergedRelevance r * (real (successfulSources r) / 3) \<rparr>"

text \<open>Modelled from the spec: \<open>finalize\<close> of the record store (missing), an atomic
  check-and-set: it happens once, and the record is read-only afterwards.\<close>

definition finalize :: "SearchStatus \<Rightarrow> AggregatedResponse option \<Rightarrow> SearchRecord \<Rightarrow> SearchRecord" where
  "finalize st agg r =
     (if rec_status r = Searching then r\<lparr> rec_status := st, aggregated := agg \<rparr> else r)"

text \<open>Modelled from the spec: the orchestrator's check after a source unit terminates
  (the orchestrator is missing): when all three sources are terminal it aggregates and
  then sets the status to completed if at least one source succeeded, to failed if all
  three errored.\<close>

definition checkAllTerminal :: "SearchRecord \<Rightarrow> SearchRecord" where
  "checkAllTerminal r =
     (if allTerminal r
      then finalize (if successfulSources r \<ge> 1 then Completed else Failed)
             (Some (aggregate r)) r
      else r)"

text \<open>Modelled from the spec: what can happen to a running search (the orchestrator is
  missing): an adapter returns its results, an adapter fails or times out, the hard ceiling
  is reached.\<close>

datatype OrchestratorEvent =
    AdapterReturned SearchSource "SearchResult list"
  | AdapterFailed SearchSource
  | CeilingReached

text \<open>Modelled from the spec: one step of the orchestrator (missing). The three source
  units run concurrently; their interleaving is the order of the events. After
  finalization the record is read-only. The ceiling forces the status failed when the
  sources have not all terminated.\<close>

fun orchestratorStep :: "OrchestratorEvent \<Rightarrow> SearchRecord \<Rightarrow> SearchRecord" where
  "orchestratorStep (AdapterReturned src rs) r =
     (if rec_status r = Searching then checkAllTerminal (markSourceDone src rs r) else r)"
| "orchestratorStep (AdapterFailed src) r =
     (if rec_status r = Searching then checkAllTerminal (markSourceErrored src r) else r)"
| "orchestratorStep CeilingReached r = finalize Failed None r"

text \<open>Modelled from the spec: a search from \<open>submit\<close> on (the orchestrator is missing):
  the record is created and the events are applied in the order they land.\<close>

definition runSearch :: "OrchestratorEvent list \<Rightarrow> SearchRecord" where
  "runSearch es = foldl (\<lambda>r e. orchestratorStep e r) create es"

text \<open>The invariant of the orchestrator: a completed record has all its sources
  terminal, at least one of them done, and holds the aggregate of its own results.\<close>

definition statusInv :: "SearchRecord \<Rightarrow> bool" where
  "statusInv r =
     (rec_status r = Completed \<longrightarrow>
        allTerminal r \<and> successfulSources r \<ge> 1 \<and> aggregated r = Some (aggregate r))"

section \<open>Example inputs\<close>

definition hit :: "SearchSource \<Rightarrow> real \<Rightarrow> string option \<Rightarrow> SearchResult" where
  "hit src score sol =
     \<lparr> source = src, title = ''Torque drift on line 3'',
       description = ''The torque wrench drifts after a shift change'',
       relevance_score = score, solution = sol, url = None, metadata = None \<rparr>"

definition webHit :: SearchResult where
  "webHit = (hit Web 0.7 (Some ''Recalibrate the wrench''))
              \<lparr> url := Some ''https://forum.example.org/t/1'' \<rparr>"

definition tooShort :: SolutionSearchFormData where
  "tooShort = \<lparr> problem_description = ''Leaks'', department = ''Quality'',
                severity = ''medium'', reporter_name = ''Ana'' \<rparr>"

definition goodForm :: SolutionSearchFormData where
  "goodForm = \<lparr> problem_description = ''Coolant leaks at the pump flange'',
                department = ''Quality'', severity = ''medium'', reporter_name = ''Ana'' \<rparr>"

definition pdfOfSize :: "nat \<Rightarrow> File" where
  "pdfOfSize n = \<lparr> file_name = ''report.pdf'', file_size = n, file_type = ''application/pdf'' \<rparr>"




text \<open>A server whose search has failed, and whose reply to the thirtieth status query is
  lost on the network.\<close>

definition failedServer :: Server where
  "failedServer =
     \<lparr> getSearchStatus = (\<lambda>sid k.
         if k < 29 then StatusOk (snapshot Failed True True True)
         else StatusError ''Network error. Please check your connection.''),
       getSearchResults = (\<lambda>sid k. ResultsError ''Search not completed'') \<rparr>"

text \<open>The structured store returns two results, the knowledge base one, and the web
  adapter times out.\<close>

definition webTimesOut :: "OrchestratorEvent list" where
  "webTimesOut =
     [AdapterReturned Rag [hit Rag 0.7 None],
      AdapterReturned Database [hit Database 0.9 None, hit Database 0.6 None],
      AdapterFailed Web]"


text \<open>All three adapters return at least one result.\<close>

definition allReturn :: "OrchestratorEvent list" where
  "allReturn =
     [AdapterReturned Web [hit Web 0.8 None],
      AdapterReturned Database [hit Database 0.5 None, hit Database 0.8 None],
      AdapterReturned Rag [hit Rag 0.4 None]]"

text \<open>The hard ceiling is reached after one adapter has returned; the others land
  later.\<close>

definition ceilingFirst :: "OrchestratorEvent list" where
  "ceilingFirst = [AdapterReturned Rag [hit Rag 0.7 None], CeilingReached]"

section \<open>Rendering: where a solution text is shown\<close>

lemma map_filter_append:
  "List.map_filter f (xs @ ys) = List.map_filter f xs @ List.map_filter f ys"
  by (simp add: List.map_filter_def)

lemma map_filter_whenStr:
  "(\<And>s. solutionText (mk s) = None) \<Longrightarrow> List.map_filter solutionText (whenStr x mk) = []"
  by (cases x) simp_all

lemma map_filter_whenNum:
  "(\<And>n. solutionText (mk n) = None) \<Longrightarrow> List.map_filter solutionText (whenNum x mk) = []"
  by (cases x) simp_all

lemma map_filter_renderMetadata: "List.map_filter solutionText (renderMetadata m) = []"
  by (cases m)
    (simp_all add: renderMetadata_def map_filter_append map_filter_whenStr map_filter_whenNum)

lemma shownSolutions_renderResult:
  "shownSolutions (renderResult r i) =
     (case solution r of
        None \<Rightarrow> []
      | Some s \<Rightarrow> if s \<noteq> [] \<and> source r \<noteq> Web then [s] else [])"
  by (simp add: shownSolutions_def renderResult_def map_filter_append map_filter_whenStr
      map_filter_whenNum map_filter_renderMetadata split: option.splits)

text \<open>
  Claim C1. The card of a result from the web source never shows a solution text section,
  whatever its \<open>solution\<close> field holds; a solution text that a card shows is the
  \<open>solution\<close> field of a result from the database or the knowledge base.
\<close>

theorem renderResult_solution_only_internal:
  "(source r = Web \<longrightarrow> shownSolutions (renderResult r i) = []) \<and>
   (\<forall>t. t \<in> set (shownSolutions (renderResult r i)) \<longrightarrow>
        (source r = Database \<or> source r = Rag) \<and> solution r = Some t)"
  by (cases "source r") (auto simp: shownSolutions_renderResult split: option.splits if_splits)

theorem renderResult_solution_only_internal_witness:
  "source webHit = Web \<and> solution webHit = Some ''Recalibrate the wrench''
   \<and> shownSolutions (renderResult webHit 0) = []
   \<and> ''Recalibrate the wrench''
        \<in> set (shownSolutions (renderResult (hit Rag 0.7 (Some ''Recalibrate the wrench'')) 0))
   \<and> source (hit Rag 0.7 (Some ''Recalibrate the wrench'')) = Rag"
  using renderResult_solution_only_internal [of webHit 0]
    renderResult_solution_only_internal [of "hit Rag 0.7 (Some ''Recalibrate the wrench'')" 0]
  by (simp add: webHit_def hit_def shownSolutions_renderResult)

section \<open>Progress view: remaining time and percentage\<close>

lemma foldl_pending_sum:
  "foldl (\<lambda>total src. if completed src then total else total + estimatedTime src) a rows
     = a + sum_list (map estimatedTime (filter (\<lambda>src. \<not> completed src) rows))"
  by (induction rows arbitrary: a) simp_all

lemma estimatedTotalTime_Some:
  "estimatedTotalTime (Some s) =
     (if database_completed (progress s) then 0 else 3)
     + (if rag_completed (progress s) then 0 else 4)
     + (if web_completed (progress s) then 0 else 6)"
  by (simp add: estimatedTotalTime_def updatedSources_def searchSources_def progressFlag_def)

lemma estimatedTotalTime_None: "estimatedTotalTime None = 13"
  by (simp add: estimatedTotalTime_def updatedSources_def searchSources_def)

text \<open>
  Claim C5. The estimated remaining time is the sum of the expected durations of the
  sources that are not completed, with 3 s for the database, 4 s for the knowledge base and
  6 s for the web; it is never negative, and it is 0 once all three sources are completed.
\<close>

theorem estimatedTotalTime_pending_sum:
  "estimatedTotalTime st
     = sum_list (map estimatedTime (filter (\<lambda>src. \<not> completed src) (updatedSources st)))
   \<and> estimatedTotalTime (Some s) =
       (if database_completed (progress s) then 0 else 3)
       + (if rag_completed (progress s) then 0 else 4)
       + (if web_completed (progress s) then 0 else 6)
   \<and> 0 \<le> estimatedTotalTime st
   \<and> (database_completed (progress s) \<and> rag_completed (progress s) \<and> web_completed (progress s)
        \<longrightarrow> estimatedTotalTime (Some s) = 0)"
proof -
  have a: "estimatedTotalTime st
     = sum_list (map estimatedTime (filter (\<lambda>src. \<not> completed src) (updatedSources st)))"
    by (simp add: estimatedTotalTime_def foldl_pending_sum)
  have c: "0 \<le> estimatedTotalTime st"
    by (cases st) (simp_all add: estimatedTotalTime_Some estimatedTotalTime_None)
  show ?thesis using a c by (simp add: estimatedTotalTime_Some)
qed

theorem estimatedTotalTime_pending_sum_witness:
  "database_completed (progress (snapshot Completed True True True))
   \<and> rag_completed (progress (snapshot Completed True True True))
   \<and> web_completed (progress (snapshot Completed True True True))
   \<and> estimatedTotalTime (Some (snapshot Completed True True True)) = 0
   \<and> estimatedTotalTime (Some (snapshot Searching True False False)) = 10"
  using estimatedTotalTime_pending_sum
      [of "Some (snapshot Searching True False False)" "snapshot Completed True True True"]
    estimatedTotalTime_pending_sum [of None "snapshot Searching True False False"]
  by (simp add: snapshot_def)

lemma progressPercentage_Some:
  "progressPercentage (Some s) t =
     (let d = database_completed (progress s); r = rag_completed (progress s);
          w = web_completed (progress s);
          c = (if d then 1 else 0) + (if r then 1 else 0) + (if w then 1 else 0)
      in c / 3 * 100 +
         (if \<not> d then min (t / 3 * 100) 100 / 3
          else if \<not> r then min (t / 4 * 100) 100 / 3
          else if \<not> w then min (t / 6 * 100) 100 / 3 else 0))"
  by (simp add: progressPercentage_def updatedSources_def searchSources_def progressFlag_def
      getCurrentSourceIndex_def completedSources_def currentSourceProgress_def Let_def)

lemma progressPercentage_None:
  "progressPercentage None t = min (t / 3 * 100) 100 / 3"
  by (simp add: progressPercentage_def updatedSources_def searchSources_def
      getCurrentSourceIndex_def completedSources_def currentSourceProgress_def Let_def)

text \<open>
  Claim C8. For any completion flags, and before the first snapshot has arrived, and for
  any elapsed time that is not negative, the progress percentage lies between 0 and 100;
  the share of the current source is capped at 100.
\<close>

theorem progressPercentage_bounds:
  "0 \<le> t \<Longrightarrow>
     0 \<le> progressPercentage st t \<and> progressPercentage st t \<le> 100
     \<and> currentSourceProgress t src \<le> 100"
proof (cases st)
  case None
  assume "0 \<le> t"
  then show ?thesis using None
    by (simp add: progressPercentage_None currentSourceProgress_def min_def)
next
  case (Some s)
  assume "0 \<le> t"
  then show ?thesis using Some
    by (simp add: progressPercentage_Some currentSourceProgress_def Let_def min_def)
qed

theorem progressPercentage_bounds_witness:
  "(0::real) \<le> 2
   \<and> 0 \<le> progressPercentage (Some (snapshot Searching True False False)) 2
   \<and> progressPercentage (Some (snapshot Searching True False False)) 2 \<le> 100
   \<and> progressPercentage (Some (snapshot Searching True False False)) 2 = 50
   \<and> progressPercentage (Some (snapshot Searching True True False)) 60 = 100"
  using progressPercentage_bounds [of 2 "Some (snapshot Searching True False False)"]
  by (simp add: progressPercentage_Some snapshot_def)

section \<open>File validation\<close>

lemma validateFile_valid:
  "fv_valid (validateFile f maxSize allowedTypes)
     = (file_size f \<le> maxSize \<and> file_type f \<in> set allowedTypes)"
  by (auto simp: validateFile_def)

lemma validateFile_error:
  "\<not> fv_valid (validateFile f maxSize allowedTypes) \<Longrightarrow>
     \<exists>e. fv_error (validateFile f maxSize allowedTypes) = Some e \<and> e \<noteq> []"
  by (auto simp: validateFile_def split: if_splits)

lemma validateFile_ok_error:
  "fv_valid (validateFile f maxSize allowedTypes) \<Longrightarrow>
     fv_error (validateFile f maxSize allowedTypes) = None"
  by (auto simp: validateFile_def split: if_splits)

text \<open>The \<open>errors\<close> array grows by one entry for each file that fails.\<close>

lemma foldl_errors_length:
  "length (foldl (pushFileError maxSize allowedTypes) acc files) =
     length acc + length (filter (\<lambda>f. \<not> fv_valid (validateFile f maxSize allowedTypes)) files)"
proof (induction files arbitrary: acc)
  case Nil
  then show ?case by simp
next
  case (Cons f fs)
  show ?case
  proof (cases "fv_valid (validateFile f maxSize allowedTypes)")
    case True
    then show ?thesis using Cons [of acc] validateFile_ok_error [OF True]
      by (simp add: pushFileError_def)
  next
    case False
    from validateFile_error [OF False] obtain e where
      e: "fv_error (validateFile f maxSize allowedTypes) = Some e" "e \<noteq> []" by blast
    then show ?thesis using False Cons [of "acc @ [file_name f @ '': '' @ e]"]
      by (simp add: pushFileError_def)
  qed
qed

lemma validateFiles_valid:
  "valid (validateFiles files maxFiles maxSize allowedTypes) =
     (length files \<le> maxFiles \<and>
      (\<forall>f \<in> set files. file_size f \<le> maxSize \<and> file_type f \<in> set allowedTypes))"
proof (cases "length files > maxFiles")
  case True
  then show ?thesis by (simp add: validateFiles_def)
next
  case False
  have "valid (validateFiles files maxFiles maxSize allowedTypes) =
          (filter (\<lambda>f. \<not> fv_valid (validateFile f maxSize allowedTypes)) files = [])"
    using False foldl_errors_length [of maxSize allowedTypes "[]" files]
    by (simp add: validateFiles_def Let_def del: length_0_conv) simp
  also have "\<dots> = (\<forall>f \<in> set files. file_size f \<le> maxSize \<and> file_type f \<in> set allowedTypes)"
    by (simp add: filter_empty_conv validateFile_valid)
  finally show ?thesis using False by simp
qed

text \<open>
  Claim C10. With the default parameters, a list of files is accepted exactly when it has
  at most 5 files and every file has a size of at most 10 * 1024 * 1024 bytes and a MIME type
  among image/jpeg, image/png and application/pdf; a list of more than 5 files fails with the
  count error alone.
\<close>

theorem validateFiles_default_accepts:
  "valid (validateFilesDefault files) =
     (length files \<le> 5 \<and>
      (\<forall>f \<in> set files. file_size f \<le> 10 * 1024 * 1024 \<and>
           file_type f \<in> {''image/jpeg'', ''image/png'', ''application/pdf''}))
   \<and> (length files > 5 \<longrightarrow>
        validateFilesDefault files
          = \<lparr> valid = False, errors = [''Maximum 5 files allowed''] \<rparr>)"
proof -
  have five: "showNat 5 = ''5''" by (simp add: showNat.simps digitChar_def)
  have a: "valid (validateFilesDefault files) =
     (length files \<le> 5 \<and>
      (\<forall>f \<in> set files. file_size f \<le> 10 * 1024 * 1024 \<and>
           file_type f \<in> {''image/jpeg'', ''image/png'', ''application/pdf''}))"
    by (simp add: validateFilesDefault_def validateFiles_valid defaultMaxFiles_def
        defaultMaxSize_def defaultAllowedTypes_def)
  have b: "length files > 5 \<longrightarrow>
        validateFilesDefault files
          = \<lparr> valid = False, errors = [''Maximum 5 files allowed''] \<rparr>"
    using five by (simp add: validateFilesDefault_def validateFiles_def defaultMaxFiles_def)
  show ?thesis using a b by blast
qed

theorem validateFiles_default_accepts_witness:
  "valid (validateFilesDefault [pdfOfSize (10 * 1024 * 1024)])
   \<and> \<not> valid (validateFilesDefault [pdfOfSize (10 * 1024 * 1024 + 1)])
   \<and> length (replicate 6 (pdfOfSize (10 * 1024 * 1024 + 1))) > 5
   \<and> validateFilesDefault (replicate 6 (pdfOfSize (10 * 1024 * 1024 + 1)))
       = \<lparr> valid = False, errors = [''Maximum 5 files allowed''] \<rparr>"
  using validateFiles_default_accepts [of "[pdfOfSize (10 * 1024 * 1024)]"]
    validateFiles_default_accepts [of "[pdfOfSize (10 * 1024 * 1024 + 1)]"]
    validateFiles_default_accepts [of "replicate 6 (pdfOfSize (10 * 1024 * 1024 + 1))"]
  by (simp add: pdfOfSize_def)

section \<open>Form validation before submit\<close>

lemma submitForm_rejected:
  "solutionSearchSchema d \<noteq> [] \<Longrightarrow> submitForm onSubmit d s = (solutionSearchSchema d, s)"
  by (simp add: submitForm_def handleSubmit_def Let_def)

lemma submitForm_accepted:
  "solutionSearchSchema d = [] \<Longrightarrow> submitForm onSubmit d s = ([], onSubmit d s)"
  by (simp add: submitForm_def handleSubmit_def handleFormSubmit_def Let_def)

lemma schema_accepts:
  "solutionSearchSchema d = [] \<longleftrightarrow>
     10 \<le> length (problem_description d) \<and> length (problem_description d) \<le> 1000
     \<and> department d \<noteq> [] \<and> severity d \<in> {''low'', ''medium'', ''high'', ''critical''}
     \<and> 2 \<le> length (reporter_name d) \<and> length (reporter_name d) \<le> 100"
  by (auto simp: solutionSearchSchema_def zMin_def zMax_def zEnum_def)

lemma schema_short_description:
  "length (problem_description d) < 10 \<Longrightarrow>
     \<lparr> issue_path = ''problem_description'',
       issue_message = ''Problem description must be at least 10 characters'' \<rparr>
       \<in> set (solutionSearchSchema d)"
  by (simp add: solutionSearchSchema_def zMin_def)

text \<open>
  Claim C4. A form value whose problem description has fewer than 10 characters fails
  validation with the issue of that field, and submitting it calls no handler: whatever the
  handler would do (issue the submit request, create a search record), the state it acts on
  is unchanged. A description of length 5 is such a value.
\<close>

theorem short_description_rejected:
  "length (problem_description d) < 10 \<Longrightarrow>
     solutionSearchSchema d \<noteq> []
     \<and> \<lparr> issue_path = ''problem_description'',
         issue_message = ''Problem description must be at least 10 characters'' \<rparr>
         \<in> set (solutionSearchSchema d)
     \<and> snd (submitForm onSubmit d s) = s"
proof -
  assume short: "length (problem_description d) < 10"
  have "solutionSearchSchema d \<noteq> []"
    using schema_short_description [OF short] by auto
  then show ?thesis
    using schema_short_description [OF short] by (simp add: submitForm_rejected)
qed

theorem short_description_rejected_witness:
  "length (problem_description tooShort) = 5 \<and> solutionSearchSchema tooShort \<noteq> []
   \<and> snd (submitForm submitSolutionSearch tooShort []) = []"
  using short_description_rejected [of tooShort submitSolutionSearch "[]"]
  by (simp add: tooShort_def)

text \<open>
  Claim C9. A form value whose problem description has more than 1000 characters, or whose
  reporter name has fewer than 2 or more than 100 characters, fails validation, and
  submitting it calls no handler, so no submit request is issued.
\<close>

theorem long_or_bad_name_rejected:
  "length (problem_description d) > 1000 \<or> length (reporter_name d) < 2
     \<or> length (reporter_name d) > 100 \<Longrightarrow>
   solutionSearchSchema d \<noteq> [] \<and> snd (submitForm onSubmit d s) = s"
proof -
  assume bad: "length (problem_description d) > 1000 \<or> length (reporter_name d) < 2
     \<or> length (reporter_name d) > 100"
  then have "solutionSearchSchema d \<noteq> []"
    by (auto simp: solutionSearchSchema_def zMin_def zMax_def)
  then show ?thesis by (simp add: submitForm_rejected)
qed

theorem long_or_bad_name_rejected_witness:
  "length (reporter_name (goodForm \<lparr> reporter_name := ''A'' \<rparr>)) < 2
   \<and> solutionSearchSchema (goodForm \<lparr> reporter_name := ''A'' \<rparr>) \<noteq> []
   \<and> snd (submitForm submitSolutionSearch (goodForm \<lparr> reporter_name := ''A'' \<rparr>) []) = []
   \<and> length (problem_description
        (goodForm \<lparr> problem_description := replicate 1001 CHR ''a'' \<rparr>)) > 1000
   \<and> snd (submitForm submitSolutionSearch
        (goodForm \<lparr> problem_description := replicate 1001 CHR ''a'' \<rparr>) []) = []
   \<and> submitForm submitSolutionSearch goodForm [] = ([], [PostSubmit goodForm])"
  using long_or_bad_name_rejected [of "goodForm \<lparr> reporter_name := ''A'' \<rparr>" submitSolutionSearch "[]"]
    long_or_bad_name_rejected
      [of "goodForm \<lparr> problem_description := replicate 1001 CHR ''a'' \<rparr>" submitSolutionSearch "[]"]
  by (simp add: goodForm_def submitForm_accepted schema_accepts submitSolutionSearch_def)

section \<open>Polling the search status\<close>

subsection \<open>One iteration of the loop\<close>




lemma pollLoop_throw_last:
  "k < n \<Longrightarrow> tryBlock srv sid p k = (TryThrow e, evs) \<Longrightarrow> k = n - 1 \<Longrightarrow>
     pollLoop srv sid p n ms k = (Thrown e, evs)"
  by (subst pollLoop.simps) simp

lemma pollLoop_throw_retry:
  "k < n \<Longrightarrow> tryBlock srv sid p k = (TryThrow e, evs) \<Longrightarrow> k \<noteq> n - 1 \<Longrightarrow>
     pollLoop srv sid p n ms k = andThen (evs @ [Wait ms]) (pollLoop srv sid p n ms (k + 1))"
  by (subst pollLoop.simps) simp





subsection \<open>The whole loop\<close>




text \<open>The exception that the loop raises for a failed search is caught by the loop's own
  \<open>catch\<close>: before the last attempt, a reply \<open>failed\<close> makes the loop wait and poll
  again.\<close>

lemma pollLoop_retry_on_failed:
  assumes "k + 1 < n" "getSearchStatus srv sid k = StatusOk st" "st_status st = Failed"
  shows "pollLoop srv sid p n ms k
           = andThen ([GetStatus sid] @ (if p then [OnProgress st] else []) @ [Wait ms])
               (pollLoop srv sid p n ms (k + 1))"
proof -
  have tb: "tryBlock srv sid p k
              = (TryThrow ''Search failed'', [GetStatus sid] @ (if p then [OnProgress st] else []))"
    using assms(2,3) by (simp add: tryBlock_def)
  show ?thesis using pollLoop_throw_retry [OF _ tb, of n ms] assms(1) by simp
qed












subsection \<open>A failed search\<close>

text \<open>The progress view reports a failed search at once, and asks for no results.\<close>

lemma pollStatus_failed:
  "st_status r = Failed \<Longrightarrow>
     pollStatus (StatusOk r) v
       = v\<lparr> view_status := Some r, isPolling := False,
             fired := fired v @ [OnError ''Search failed''] \<rparr>"
  by (simp add: pollStatus_def)

text \<open>When every reply is \<open>failed\<close>, the service throws the error of a failed search, after
  the whole budget of attempts.\<close>

lemma pollLoop_all_failed:
  assumes "\<forall>j. k \<le> j \<and> j < n \<longrightarrow> (\<exists>st. getSearchStatus srv sid j = StatusOk st \<and> st_status st = Failed)"
    and "k < n"
  shows "fst (pollLoop srv sid p n ms k) = Thrown ''Search failed''"
  using assms
proof (induction "n - k" arbitrary: k)
  case 0
  then show ?case by simp
next
  case (Suc d)
  obtain st where st: "getSearchStatus srv sid k = StatusOk st" "st_status st = Failed"
    using Suc.prems by auto
  have tb: "tryBlock srv sid p k
              = (TryThrow ''Search failed'', [GetStatus sid] @ (if p then [OnProgress st] else []))"
    using st by (simp add: tryBlock_def)
  show ?case
  proof (cases "k = n - 1")
    case True
    then show ?thesis using pollLoop_throw_last [OF Suc.prems(2) tb] by simp
  next
    case False
    have "fst (pollLoop srv sid p n ms (k + 1)) = Thrown ''Search failed''"
      using Suc.hyps(1) [of "k + 1"] Suc.hyps(2) Suc.prems False by simp
    then show ?thesis using pollLoop_throw_retry [OF Suc.prems(2) tb False]
      by (simp add: andThen_def)
  qed
qed

text \<open>
  Claim C3. A search whose reported status is failed should surface the error message
  \<open>Search failed\<close>. Here the search is reported as failed on each of the first 29 attempts
  and the reply to the last attempt is lost on the network: the service makes all 30 status
  queries and throws the network error, not \<open>Search failed\<close>.
\<close>

theorem pollSearchStatus_failed_search_surfaces_network_error:
  "fst (pollSearchStatusDefault failedServer 1 False)
     = Thrown ''Network error. Please check your connection.''
   \<and> statusQueries (snd (pollSearchStatusDefault failedServer 1 False)) = 30"
  by code_simp

section \<open>The search record: status and confidence\<close>

lemma step_terminal: "rec_status r \<noteq> Searching \<Longrightarrow> orchestratorStep e r = r"
  by (cases e) (simp_all add: finalize_def)

lemma steps_terminal:
  "rec_status r \<noteq> Searching \<Longrightarrow> foldl (\<lambda>r e. orchestratorStep e r) r es = r"
  by (induction es) (simp_all add: step_terminal)

lemma markSourceDone_status: "rec_status (markSourceDone src rs r) = rec_status r"
  by (simp add: markSourceDone_def)

lemma markSourceErrored_status: "rec_status (markSourceErrored src r) = rec_status r"
  by (simp add: markSourceErrored_def)

lemma checkAllTerminal_inv:
  "rec_status r = Searching \<Longrightarrow> statusInv (checkAllTerminal r)"
  by (simp add: statusInv_def checkAllTerminal_def finalize_def allTerminal_def
      successfulSources_def aggregate_def topMergedRelevance_def mergedResults_def)

lemma step_inv: "statusInv r \<Longrightarrow> statusInv (orchestratorStep e r)"
proof (cases "rec_status r = Searching")
  case False
  assume "statusInv r"
  then show ?thesis using False by (simp add: step_terminal)
next
  case True
  show ?thesis
  proof (cases e)
    case (AdapterReturned src rs)
    then show ?thesis using True checkAllTerminal_inv [of "markSourceDone src rs r"]
      by (simp add: markSourceDone_status)
  next
    case (AdapterFailed src)
    then show ?thesis using True checkAllTerminal_inv [of "markSourceErrored src r"]
      by (simp add: markSourceErrored_status)
  next
    case CeilingReached
    then show ?thesis using True by (simp add: statusInv_def finalize_def)
  qed
qed

lemma steps_inv: "statusInv r \<Longrightarrow> statusInv (foldl (\<lambda>r e. orchestratorStep e r) r es)"
  by (induction es arbitrary: r) (simp_all add: step_inv)

lemma run_inv: "statusInv (runSearch es)"
  unfolding runSearch_def by (rule steps_inv) (simp add: statusInv_def create_def)

text \<open>
  Claim C7. A search starts in status searching; once its status is completed or failed, no
  step of the orchestrator changes it, so it never reverses and never passes from one
  terminal status to the other; and in every interleaving of the adapter outcomes and the
  hard ceiling, a record in status completed has all three sources terminal.
\<close>

theorem status_monotonic:
  "rec_status (runSearch []) = Searching
   \<and> (rec_status r \<noteq> Searching \<longrightarrow> rec_status (orchestratorStep e r) = rec_status r)
   \<and> (rec_status (runSearch es) \<noteq> Searching
        \<longrightarrow> rec_status (runSearch (es @ es')) = rec_status (runSearch es))
   \<and> (rec_status (runSearch es) = Completed \<longrightarrow> allTerminal (runSearch es))"
proof -
  have a: "rec_status (runSearch []) = Searching" by (simp add: runSearch_def create_def)
  have b: "rec_status r \<noteq> Searching \<longrightarrow> rec_status (orchestratorStep e r) = rec_status r"
    by (simp add: step_terminal)
  have c: "rec_status (runSearch es) \<noteq> Searching
        \<longrightarrow> rec_status (runSearch (es @ es')) = rec_status (runSearch es)"
    by (simp add: runSearch_def steps_terminal)
  have d: "rec_status (runSearch es) = Completed \<longrightarrow> allTerminal (runSearch es)"
    using run_inv [of es] by (simp add: statusInv_def)
  show ?thesis using a b c d by blast
qed

lemma run_webTimesOut:
  "rec_status (runSearch webTimesOut) = Completed
   \<and> allTerminal (runSearch webTimesOut)
   \<and> erroredSources (runSearch webTimesOut) = 1
   \<and> map relevance_score (mergedResults (runSearch webTimesOut)) = [0.9, 0.7, 0.6]
   \<and> map source (mergedResults (runSearch webTimesOut)) = [Database, Rag, Database]"
  by (simp add: runSearch_def webTimesOut_def create_def markSourceDone_def
      markSourceErrored_def checkAllTerminal_def allTerminal_def allSources_def finalize_def
      successfulSources_def erroredSources_def mergedResults_def hit_def
      less_eq_prod_def less_prod_def)

lemma run_ceilingFirst:
  "rec_status (runSearch ceilingFirst) = Failed"
  by (simp add: runSearch_def ceilingFirst_def create_def markSourceDone_def
      checkAllTerminal_def allTerminal_def allSources_def finalize_def)

theorem status_monotonic_witness:
  "rec_status (runSearch webTimesOut) = Completed
   \<and> allTerminal (runSearch webTimesOut)
   \<and> rec_status (runSearch (webTimesOut @ [CeilingReached])) = Completed
   \<and> rec_status (runSearch ceilingFirst) \<noteq> Searching
   \<and> rec_status (runSearch (ceilingFirst @ allReturn)) = Failed
   \<and> rec_status (orchestratorStep (AdapterFailed Web) (runSearch ceilingFirst)) = Failed"
  using run_webTimesOut run_ceilingFirst
    status_monotonic [of "runSearch ceilingFirst" "AdapterFailed Web" webTimesOut "[CeilingReached]"]
    status_monotonic [of "runSearch ceilingFirst" "AdapterFailed Web" ceilingFirst allReturn]
  by simp

lemma all_done_successful:
  "list_all (\<lambda>src. sourceState r src = Done) allSources \<Longrightarrow> successfulSources r = 3"
  by (simp add: successfulSources_def allSources_def)

lemma one_errored_successful:
  "allTerminal r \<Longrightarrow> erroredSources r = 1 \<Longrightarrow> successfulSources r = 2"
  unfolding allTerminal_def erroredSources_def successfulSources_def allSources_def
  by (cases "sourceState r Database"; cases "sourceState r Rag"; cases "sourceState r Web")
    simp_all

lemma hd_sort_key_least:
  fixes f :: "'a \<Rightarrow> 'k::linorder"
  assumes "sort_key f xs = y # ys" "x \<in> set xs"
  shows "f y \<le> f x"
proof -
  have "sorted (map f (sort_key f xs))" by simp
  then have "\<forall>z \<in> set ys. f y \<le> f z" using assms(1) by simp
  moreover have "x \<in> set (y # ys)" using assms by (metis set_sort)
  ultimately show ?thesis by auto
qed

text \<open>The top merged relevance is the greatest relevance score among all results.\<close>

lemma top_is_max:
  assumes "x \<in> set (concat (map (resultsBySource r) allSources))"
  shows "relevance_score x \<le> topMergedRelevance r"
proof (cases "mergedResults r")
  case Nil
  then have "set (concat (map (resultsBySource r) allSources)) = {}"
    unfolding mergedResults_def by (metis set_sort set_empty)
  then show ?thesis using assms by simp
next
  case (Cons y ys)
  have "(- relevance_score y, sourcePriority (source y))
          \<le> (- relevance_score x, sourcePriority (source x))"
    using hd_sort_key_least [OF Cons [unfolded mergedResults_def] assms] .
  then have "relevance_score x \<le> relevance_score y" by (auto simp: less_eq_prod_def)
  then show ?thesis using Cons by (simp add: topMergedRelevance_def)
qed

text \<open>
  Claim C6. A completed search holds the aggregate of its results, whose confidence score
  is the relevance score of the top-ranked merged result times the fraction of the three
  sources that succeeded: the top merged relevance itself when all three sources are done,
  and the top merged relevance times 2/3 when exactly one source errored. No result has a
  relevance above the top merged relevance.
\<close>

theorem confidence_is_discounted_top:
  "(rec_status (runSearch es) = Completed \<longrightarrow>
      aggregated (runSearch es) = Some (aggregate (runSearch es)))
   \<and> confidenceScore (aggregate r) = topMergedRelevance r * (real (successfulSources r) / 3)
   \<and> (list_all (\<lambda>src. sourceState r src = Done) allSources
        \<longrightarrow> confidenceScore (aggregate r) = topMergedRelevance r)
   \<and> (allTerminal r \<and> erroredSources r = 1
        \<longrightarrow> confidenceScore (aggregate r) = topMergedRelevance r * (2 / 3))
   \<and> (\<forall>x \<in> set (concat (map (resultsBySource r) allSources)).
        relevance_score x \<le> topMergedRelevance r)"
proof -
  have z: "rec_status (runSearch es) = Completed \<longrightarrow>
      aggregated (runSearch es) = Some (aggregate (runSearch es))"
    using run_inv [of es] by (simp add: statusInv_def)
  have a: "confidenceScore (aggregate r) = topMergedRelevance r * (real (successfulSources r) / 3)"
    by (simp add: aggregate_def)
  have b: "list_all (\<lambda>src. sourceState r src = Done) allSources
        \<longrightarrow> confidenceScore (aggregate r) = topMergedRelevance r"
    by (simp add: aggregate_def all_done_successful)
  have c: "allTerminal r \<and> erroredSources r = 1
        \<longrightarrow> confidenceScore (aggregate r) = topMergedRelevance r * (2 / 3)"
    by (simp add: aggregate_def one_errored_successful)
  show ?thesis using z a b c top_is_max by blast
qed

lemma run_allReturn:
  "rec_status (runSearch allReturn) = Completed
   \<and> list_all (\<lambda>src. sourceState (runSearch allReturn) src = Done) allSources
   \<and> map relevance_score (mergedResults (runSearch allReturn)) = [0.8, 0.8, 0.5, 0.4]
   \<and> map source (mergedResults (runSearch allReturn)) = [Database, Web, Database, Rag]"
  by (simp add: runSearch_def allReturn_def create_def markSourceDone_def
      checkAllTerminal_def allTerminal_def allSources_def finalize_def
      successfulSources_def mergedResults_def hit_def less_eq_prod_def less_prod_def)

theorem confidence_is_discounted_top_witness:
  "rec_status (runSearch webTimesOut) = Completed
   \<and> allTerminal (runSearch webTimesOut) \<and> erroredSources (runSearch webTimesOut) = 1
   \<and> topMergedRelevance (runSearch webTimesOut) = 0.9
   \<and> map_option confidenceScore (aggregated (runSearch webTimesOut)) = Some 0.6
   \<and> list_all (\<lambda>src. sourceState (runSearch allReturn) src = Done) allSources
   \<and> confidenceScore (aggregate (runSearch allReturn)) = 0.8"
proof -
  have t1: "topMergedRelevance (runSearch webTimesOut) = 0.9"
    using run_webTimesOut by (auto simp: topMergedRelevance_def split: list.splits)
  have t2: "topMergedRelevance (runSearch allReturn) = 0.8"
    using run_allReturn by (auto simp: topMergedRelevance_def split: list.splits)
  show ?thesis
    using t1 t2 run_webTimesOut run_allReturn
      confidence_is_discounted_top [of webTimesOut "runSearch webTimesOut"]
      confidence_is_discounted_top [of allReturn "runSearch allReturn"]
    by simp
qed

end
